theory Spec2Isabelle
  imports Main "HOL-Library.Sublist"
begin

section \<open>The set-variable block of the bot engine\<close>

text \<open>
  A shallow embedding of
  \<^verbatim>\<open>packages/bot-engine/blocks/logic/setVariable/executeSetVariable.ts\<close>.
  JavaScript strings are modelled as lists of 8-bit characters, JavaScript values by
  the datatype \<open>js_value\<close>, exceptions by the left injection of a sum type.
\<close>

subsection \<open>Values and errors\<close>

text \<open>
  A JavaScript value (the TypeScript type \<^verbatim>\<open>unknown\<close>). Numbers are integers or NaN;
  fractions and infinities are not represented.
\<close>

datatype js_value =
    JUndefined
  | JNull
  | JBool bool
  | JNum int
  | JNaN
  | JStr string
  | JArr "js_value list"
  | JObj "(string \<times> js_value) list"

datatype error =
    TypeError string
  | RangeError string
  | SyntaxError string
  | ReferenceError string
  | Thrown js_value

subsection \<open>String operations of the JavaScript library\<close>

text \<open>\<^verbatim>\<open>str.startsWith(p)\<close>, \<^verbatim>\<open>str.endsWith(p)\<close> and \<^verbatim>\<open>str.includes(p)\<close>.\<close>

definition startsWith :: "string \<Rightarrow> string \<Rightarrow> bool" where
  "startsWith str p = prefix p str"

definition endsWith :: "string \<Rightarrow> string \<Rightarrow> bool" where
  "endsWith str p = suffix p str"

fun includesStr :: "string \<Rightarrow> string \<Rightarrow> bool" where
  "includesStr [] p = (p = [])"
| "includesStr (c # cs) p = (prefix p (c # cs) \<or> includesStr cs p)"

text \<open>
  \<^verbatim>\<open>str.split(sep)\<close> for a non-empty separator: the pieces between the occurrences of
  \<open>sep\<close>, found from left to right without overlap. The accumulator holds the current
  piece in reverse.
\<close>

function splitFrom :: "string \<Rightarrow> string \<Rightarrow> string \<Rightarrow> string list" where
  "splitFrom sep acc [] = [rev acc]"
| "splitFrom sep acc (c # cs) =
     (if sep \<noteq> [] \<and> prefix sep (c # cs)
      then rev acc # splitFrom sep [] (drop (length sep) (c # cs))
      else splitFrom sep (c # acc) cs)"
  by pat_completeness auto
termination
  by (relation "measure (\<lambda>(sep, acc, s). length s)") auto

definition split :: "string \<Rightarrow> string \<Rightarrow> string list" where
  "split str sep = splitFrom sep [] str"

subsection \<open>Numeric strings: the global \<^verbatim>\<open>isNaN\<close> applied to a string\<close>

text \<open>
  \<^verbatim>\<open>isNaN(str)\<close> converts the string to a number (ECMAScript \<^verbatim>\<open>StringToNumber\<close>) and
  tests the result. The conversion trims white space and line terminators, reads the
  empty string as 0, and otherwise accepts a \<^verbatim>\<open>StrNumericLiteral\<close>: an optionally signed
  decimal literal (digits, an optional fraction, an optional exponent, or
  \<^verbatim>\<open>Infinity\<close>) or an unsigned binary, octal or hexadecimal integer literal. Every other
  string converts to NaN.
\<close>

definition isStrWhiteSpaceChar :: "char \<Rightarrow> bool" where
  "isStrWhiteSpaceChar c =
     (c = CHR 0x09 \<or> c = CHR 0x0A \<or> c = CHR 0x0B \<or> c = CHR 0x0C \<or> c = CHR 0x0D
      \<or> c = CHR 0x20 \<or> c = CHR 0xA0)"

definition trimString :: "string \<Rightarrow> string" where
  "trimString s = rev (dropWhile isStrWhiteSpaceChar (rev (dropWhile isStrWhiteSpaceChar s)))"

definition isDecimalDigit :: "char \<Rightarrow> bool" where
  "isDecimalDigit c = (c \<in> set ''0123456789'')"

definition isHexDigit :: "char \<Rightarrow> bool" where
  "isHexDigit c = (c \<in> set ''0123456789abcdefABCDEF'')"

definition isOctalDigit :: "char \<Rightarrow> bool" where
  "isOctalDigit c = (c \<in> set ''01234567'')"

definition isBinaryDigit :: "char \<Rightarrow> bool" where
  "isBinaryDigit c = (c \<in> set ''01'')"

text \<open>\<^verbatim>\<open>ExponentPart_opt\<close> followed by the end of the string.\<close>

definition isExponentPartOpt :: "string \<Rightarrow> bool" where
  "isExponentPartOpt s =
     (case s of
        [] \<Rightarrow> True
      | c # r \<Rightarrow>
          (c = CHR ''e'' \<or> c = CHR ''E'') \<and>
          (let ds = (case r of
                       [] \<Rightarrow> []
                     | d # r' \<Rightarrow> if d = CHR ''+'' \<or> d = CHR ''-'' then r' else r)
           in ds \<noteq> [] \<and> list_all isDecimalDigit ds))"

definition isStrUnsignedDecimalLiteral :: "string \<Rightarrow> bool" where
  "isStrUnsignedDecimalLiteral s =
     (s = ''Infinity'' \<or>
      (let intPart = takeWhile isDecimalDigit s;
           rest = dropWhile isDecimalDigit s
       in case rest of
            [] \<Rightarrow> intPart \<noteq> []
          | c # r \<Rightarrow>
              if c = CHR ''.''
              then (let fracPart = takeWhile isDecimalDigit r;
                        rest' = dropWhile isDecimalDigit r
                    in (intPart \<noteq> [] \<or> fracPart \<noteq> []) \<and> isExponentPartOpt rest')
              else intPart \<noteq> [] \<and> isExponentPartOpt rest))"

definition isStrDecimalLiteral :: "string \<Rightarrow> bool" where
  "isStrDecimalLiteral s =
     (case s of
        [] \<Rightarrow> False
      | c # r \<Rightarrow>
          if c = CHR ''+'' \<or> c = CHR ''-''
          then isStrUnsignedDecimalLiteral r
          else isStrUnsignedDecimalLiteral s)"

definition isNonDecimalIntegerLiteral :: "string \<Rightarrow> bool" where
  "isNonDecimalIntegerLiteral s =
     (case s of
        z # p # ds \<Rightarrow>
          z = CHR ''0'' \<and> ds \<noteq> [] \<and>
          (if p = CHR ''x'' \<or> p = CHR ''X'' then list_all isHexDigit ds
           else if p = CHR ''o'' \<or> p = CHR ''O'' then list_all isOctalDigit ds
           else if p = CHR ''b'' \<or> p = CHR ''B'' then list_all isBinaryDigit ds
           else False)
      | _ \<Rightarrow> False)"

definition isNaN :: "string \<Rightarrow> bool" where
  "isNaN str =
     (let s = trimString str
      in \<not> (s = [] \<or> isStrDecimalLiteral s \<or> isNonDecimalIntegerLiteral s))"

subsection \<open>The guard pattern \<^verbatim>\<open>/0[^.].+/\<close>\<close>

text \<open>
  \<^verbatim>\<open>/0[^.].+/.test(str)\<close>: the pattern is not anchored, so it matches when some position
  of the string holds the character 0, followed by any character but a dot, followed by
  at least one character that is not a line terminator.
\<close>

definition isLineTerminator :: "char \<Rightarrow> bool" where
  "isLineTerminator c = (c = CHR 0x0A \<or> c = CHR 0x0D)"

fun testOctalPattern :: "string \<Rightarrow> bool" where
  "testOctalPattern (a # b # c # rest) =
     ((a = CHR ''0'' \<and> b \<noteq> CHR ''.'' \<and> \<not> isLineTerminator c)
      \<or> testOctalPattern (b # c # rest))"
| "testOctalPattern _ = False"

subsection \<open>The data model\<close>

text \<open>
  The types of \<^verbatim>\<open>@typebot.io/schemas\<close> as far as the block reads them. An optional
  field is an \<open>option\<close>. The fields \<^verbatim>\<open>id\<close>, \<^verbatim>\<open>name\<close> and \<^verbatim>\<open>value\<close> of a variable are
  \<open>var_id\<close>, \<open>var_name\<close> and \<open>var_value\<close>.
\<close>

record variable =
  var_id :: string
  var_name :: string
  var_value :: js_value

record typebot_in_session =
  variables :: "variable list"

record queue_item =
  typebot :: typebot_in_session
  resultId :: "string option"

record contact_info =
  name :: "string option"
  phoneNumber :: "string option"

record whatsapp_info =
  contact :: contact_info

record session_state =
  typebotsQueue :: "queue_item list"
  whatsApp :: "whatsapp_info option"

text \<open>The values of \<^verbatim>\<open>options.type\<close>, in the order of the \<^verbatim>\<open>switch\<close>.\<close>

datatype value_type =
    ContactName
  | PhoneNumber
  | Now
  | Today
  | Tomorrow
  | Yesterday
  | RandomId
  | ResultId
  | UserId
  | MapItemWithSameIndex
  | AppendValues
  | Empty
  | MomentOfTheDay
  | EnvironmentName
  | Custom

record map_list_item_params =
  baseListVariableId :: "string option"
  baseItemVariableId :: "string option"
  targetListVariableId :: "string option"

record set_variable_options =
  variableId :: "string option"
  type :: "value_type option"
  expressionToEvaluate :: "string option"
  isExecutedOnClient :: "bool option"
  timeZone :: "string option"
  item :: "string option"
  mapListItemParams :: "map_list_item_params option"

record set_variable_block =
  block_outgoingEdgeId :: "string option"
  options :: "set_variable_options option"

record set_variable_action =
  scriptToExecute :: js_value

record client_side_action =
  action_type :: string
  setVariable :: set_variable_action
  expectsDedicatedReply :: bool

record execute_logic_response =
  outgoingEdgeId :: "string option"
  clientSideActions :: "client_side_action list option"
  newSessionState :: "session_state option"

text \<open>A JavaScript \<^verbatim>\<open>Date\<close>: milliseconds since the epoch, or the invalid date.\<close>

datatype js_date = Date int | InvalidDate

subsection \<open>Collaborators\<close>

text \<open>
  The functions the block imports from other packages are parameters of the model.
  \<open>parseVariables\<close> takes the pool, the optional \<^verbatim>\<open>fieldToParse\<close> option and the text
  (which may be undefined); \<open>runInContext\<close> takes the script and the entries of the
  sandbox object (to which the block adds \<^verbatim>\<open>fetch\<close>) and returns the value of the
  script or the exception it throws; a script that runs forever is not modelled.
\<close>

datatype field_to_parse = FieldId | FieldValue

record collaborators =
  parseVariables :: "variable list \<Rightarrow> field_to_parse option \<Rightarrow> string option \<Rightarrow> string"
  parseGuessedValueType :: "js_value \<Rightarrow> js_value"
  parseScriptToExecuteClientSideAction :: "variable list \<Rightarrow> string \<Rightarrow> js_value"
  updateVariablesInSession :: "session_state \<Rightarrow> variable list \<Rightarrow> session_state"
  runInContext :: "string \<Rightarrow> (string \<times> js_value) list \<Rightarrow> error + js_value"
  utcToZonedTime :: "js_date \<Rightarrow> string \<Rightarrow> js_date"
  tzFormat :: "js_date \<Rightarrow> string \<Rightarrow> string \<Rightarrow> error + string"

text \<open>
  What the host returns to one invocation: the identifier \<^verbatim>\<open>createId()\<close> generates and
  the clock reading of \<^verbatim>\<open>new Date()\<close> and \<^verbatim>\<open>Date.now()\<close>. Each branch of the block calls
  either of them at most once.
\<close>

record host =
  createId :: string
  dateNow :: int

text \<open>
  Modelled from the spec: \<^verbatim>\<open>isEmpty\<close> of \<^verbatim>\<open>@typebot.io/lib\<close>, applied to the string that
  template substitution returns (``an empty result after substitution is treated as
  no zone'').
\<close>

definition isEmpty :: "string \<Rightarrow> bool" where
  "isEmpty s = (s = [])"

text \<open>
  Modelled from the spec: \<^verbatim>\<open>byId\<close> of \<^verbatim>\<open>@typebot.io/lib\<close> (``looks up the existing
  variable by id'').
\<close>

definition byId :: "string \<Rightarrow> variable \<Rightarrow> bool" where
  "byId i v = (var_id v = i)"

text \<open>An interpolation \<^verbatim>\<open>${x}\<close> of a template literal: undefined prints as its name.\<close>

definition interpolate :: "string option \<Rightarrow> string" where
  "interpolate x = (case x of None \<Rightarrow> ''undefined'' | Some s \<Rightarrow> s)"

definition doubleQuoted :: "string \<Rightarrow> string" where
  "doubleQuoted s = [CHR 0x22] @ s @ [CHR 0x22]"

text \<open>\<^verbatim>\<open>state.typebotsQueue[0]\<close>, whose fields the block reads: a type error on an empty queue.\<close>

definition firstInQueue :: "session_state \<Rightarrow> error + queue_item" where
  "firstInQueue state =
     (case typebotsQueue state of
        [] \<Rightarrow> Inl (TypeError ''Cannot read properties of undefined'')
      | q # _ \<Rightarrow> Inr q)"

subsection \<open>The time resolver\<close>

text \<open>
  \<^verbatim>\<open>toISOWithTz\<close>: the date moved into the zone and formatted with the pattern of the
  source. The formatter of \<^verbatim>\<open>date-fns-tz\<close> throws on a date it cannot format.
\<close>

definition isoFormat :: string where
  "isoFormat = ''yyyy-MM-dd'' @ [CHR 0x27] @ ''T'' @ [CHR 0x27] @ ''HH:mm:ssXXX''"

definition toISOWithTz :: "collaborators \<Rightarrow> js_date \<Rightarrow> string \<Rightarrow> error + string" where
  "toISOWithTz env date tz =
     (let zonedDate = utcToZonedTime env date tz
      in tzFormat env zonedDate isoFormat tz)"

subsection \<open>The sandboxed evaluator\<close>

definition isSingleVariable :: "string \<Rightarrow> bool" where
  "isSingleVariable str =
     (startsWith str ''{{'' \<and> endsWith str ''}}'' \<and> length (split str ''{{'') = 2)"

text \<open>The function body the block wraps around the expression before it is executed.\<close>

definition wrapInFunction :: "string \<Rightarrow> string" where
  "wrapInFunction str =
     ''(function() {'' @ (if includesStr str ''return '' then str else ''return '' @ str)
       @ ''})()''"

definition sandboxEntries :: "collaborators \<Rightarrow> variable list \<Rightarrow> (string \<times> js_value) list" where
  "sandboxEntries env vars = map (\<lambda>v. (var_id v, parseGuessedValueType env (var_value v))) vars"

definition evaluateSetVariableExpression ::
  "collaborators \<Rightarrow> variable list \<Rightarrow> string \<Rightarrow> error + js_value" where
  "evaluateSetVariableExpression env vars str =
     (if isSingleVariable str then Inr (JStr (parseVariables env vars None (Some str)))
      else if \<not> isNaN str \<and> testOctalPattern str then Inr (JStr str)
      else
        (let evaluating = parseVariables env vars (Some FieldId) (Some (wrapInFunction str))
         in case runInContext env evaluating (sandboxEntries env vars) of
              Inr v \<Rightarrow> Inr v
            | Inl err \<Rightarrow> Inr (JStr (parseVariables env vars None (Some str)))))"

subsection \<open>The scripts the synthesizer writes\<close>

text \<open>
  The synthesizer returns JavaScript text. The scripts of the \<^verbatim>\<open>Append value(s)\<close> and
  \<^verbatim>\<open>Moment of the day\<close> branches are statement lists of the following small fragment
  of JavaScript. \<open>renderScript\<close> prints a tree as the text the source writes, and
  \<open>execScript\<close> runs it as JavaScript does: statement by statement, the first
  \<^verbatim>\<open>return\<close> reached gives the result.

  \<open>Raw t\<close> is a text interpolated into the template literal, read as one operand.
  This is how JavaScript reads the text when it is an identifier (\<open>isIdentifier\<close>
  below); the properties of the scripts are stated for such texts only.
\<close>

datatype jexpr =
    Raw string
  | Paren jexpr
  | StrLit string
  | ArrayLit "jexpr list"
  | ConcatCall jexpr jexpr

datatype jcond =
    HoursLt nat
  | HoursGe nat
  | AndAlso jcond jcond
  | OrElse jcond jcond
  | Not jexpr
  | NotIsArray jexpr

datatype jstmt =
    ConstNow
  | IfReturn jcond jexpr
  | Return jexpr

function showNat :: "nat \<Rightarrow> string" where
  "showNat n =
     (if n < 10 then [char_of (48 + n)]
      else showNat (n div 10) @ [char_of (48 + n mod 10)])"
  by pat_completeness auto
termination
  by (relation "measure (\<lambda>n. n)") auto

definition showInt :: "int \<Rightarrow> string" where
  "showInt i = (if i < 0 then ''-'' @ showNat (nat (- i)) else showNat (nat i))"

fun joinWith :: "string \<Rightarrow> string list \<Rightarrow> string" where
  "joinWith sep [] = []"
| "joinWith sep [x] = x"
| "joinWith sep (x # y # ys) = x @ sep @ joinWith sep (y # ys)"

fun renderExpr :: "jexpr \<Rightarrow> string" where
  "renderExpr (Raw t) = t"
| "renderExpr (Paren e) = ''('' @ renderExpr e @ '')''"
| "renderExpr (StrLit s) = [CHR 0x27] @ s @ [CHR 0x27]"
| "renderExpr (ArrayLit es) = ''['' @ joinWith '', '' (map renderExpr es) @ '']''"
| "renderExpr (ConcatCall a b) = renderExpr a @ ''.concat('' @ renderExpr b @ '')''"

fun renderCond :: "jcond \<Rightarrow> string" where
  "renderCond (HoursLt n) = ''now.getHours() < '' @ showNat n"
| "renderCond (HoursGe n) = ''now.getHours() >= '' @ showNat n"
| "renderCond (AndAlso a b) = renderCond a @ '' && '' @ renderCond b"
| "renderCond (OrElse a b) = renderCond a @ '' || '' @ renderCond b"
| "renderCond (Not e) = ''!'' @ renderExpr e"
| "renderCond (NotIsArray e) = ''!Array.isArray('' @ renderExpr e @ '')''"

fun renderStmt :: "jstmt \<Rightarrow> string" where
  "renderStmt ConstNow = ''const now = new Date()''"
| "renderStmt (IfReturn c e) = ''if('' @ renderCond c @ '') return '' @ renderExpr e"
| "renderStmt (Return e) = ''return '' @ renderExpr e"

text \<open>
  The statements, each followed by the terminator (a semicolon or nothing), one per
  line with the indentation of the source.
\<close>

definition renderScript :: "string \<Rightarrow> jstmt list \<Rightarrow> string" where
  "renderScript terminator stmts =
     joinWith (terminator @ [CHR 0x0A] @ ''        '') (map renderStmt stmts) @ terminator"

text \<open>Truthiness (\<^verbatim>\<open>ToBoolean\<close>) and \<^verbatim>\<open>ToString\<close> of a value.\<close>

fun truthy :: "js_value \<Rightarrow> bool" where
  "truthy JUndefined = False"
| "truthy JNull = False"
| "truthy (JBool b) = b"
| "truthy (JNum n) = (n \<noteq> 0)"
| "truthy JNaN = False"
| "truthy (JStr s) = (s \<noteq> [])"
| "truthy (JArr xs) = True"
| "truthy (JObj kvs) = True"

fun jsToString :: "js_value \<Rightarrow> string" where
  "jsToString JUndefined = ''undefined''"
| "jsToString JNull = ''null''"
| "jsToString (JBool b) = (if b then ''true'' else ''false'')"
| "jsToString (JNum n) = showInt n"
| "jsToString JNaN = ''NaN''"
| "jsToString (JStr s) = s"
| "jsToString (JArr xs) =
     joinWith '','' (map (\<lambda>x. if x = JUndefined \<or> x = JNull then [] else jsToString x) xs)"
| "jsToString (JObj kvs) = ''[object Object]''"

text \<open>
  \<^verbatim>\<open>receiver.concat(arg)\<close>: on an array, the array followed by the elements of \<open>arg\<close>
  when \<open>arg\<close> is an array and by \<open>arg\<close> itself otherwise; on a string, the string
  followed by \<open>arg\<close> as a string; a type error on every other receiver.
\<close>

definition concatCall :: "js_value \<Rightarrow> js_value \<Rightarrow> error + js_value" where
  "concatCall receiver arg =
     (case receiver of
        JArr xs \<Rightarrow> Inr (JArr (xs @ (case arg of JArr ys \<Rightarrow> ys | _ \<Rightarrow> [arg])))
      | JStr s \<Rightarrow> Inr (JStr (s @ jsToString arg))
      | _ \<Rightarrow> Inl (TypeError ''concat is not a function''))"

fun collectResults :: "(error + 'a) list \<Rightarrow> error + 'a list" where
  "collectResults [] = Inr []"
| "collectResults (Inl e # rs) = Inl e"
| "collectResults (Inr v # rs) =
     (case collectResults rs of Inl e \<Rightarrow> Inl e | Inr vs \<Rightarrow> Inr (v # vs))"

text \<open>
  The scope \<open>\<rho>\<close> gives the value of an interpolated operand, or nothing when the
  operand is an identifier the sandbox does not bind (a reference error).
\<close>

fun evalExpr :: "(string \<Rightarrow> js_value option) \<Rightarrow> jexpr \<Rightarrow> error + js_value" where
  "evalExpr \<rho> (Raw t) = (case \<rho> t of None \<Rightarrow> Inl (ReferenceError t) | Some v \<Rightarrow> Inr v)"
| "evalExpr \<rho> (Paren e) = evalExpr \<rho> e"
| "evalExpr \<rho> (StrLit s) = Inr (JStr s)"
| "evalExpr \<rho> (ArrayLit es) =
     (case collectResults (map (evalExpr \<rho>) es) of
        Inl e \<Rightarrow> Inl e
      | Inr vs \<Rightarrow> Inr (JArr vs))"
| "evalExpr \<rho> (ConcatCall a b) =
     (case evalExpr \<rho> a of
        Inl e \<Rightarrow> Inl e
      | Inr av \<Rightarrow>
          (case evalExpr \<rho> b of
             Inl e \<Rightarrow> Inl e
           | Inr bv \<Rightarrow> concatCall av bv))"

text \<open>A condition at clock hour \<open>h\<close> (the value of \<^verbatim>\<open>now.getHours()\<close>).\<close>

fun evalCond :: "(string \<Rightarrow> js_value option) \<Rightarrow> nat \<Rightarrow> jcond \<Rightarrow> error + bool" where
  "evalCond \<rho> h (HoursLt n) = Inr (h < n)"
| "evalCond \<rho> h (HoursGe n) = Inr (h \<ge> n)"
| "evalCond \<rho> h (AndAlso a b) =
     (case evalCond \<rho> h a of
        Inl e \<Rightarrow> Inl e
      | Inr x \<Rightarrow> if x then evalCond \<rho> h b else Inr False)"
| "evalCond \<rho> h (OrElse a b) =
     (case evalCond \<rho> h a of
        Inl e \<Rightarrow> Inl e
      | Inr x \<Rightarrow> if x then Inr True else evalCond \<rho> h b)"
| "evalCond \<rho> h (Not e) =
     (case evalExpr \<rho> e of Inl err \<Rightarrow> Inl err | Inr v \<Rightarrow> Inr (\<not> truthy v))"
| "evalCond \<rho> h (NotIsArray e) =
     (case evalExpr \<rho> e of
        Inl err \<Rightarrow> Inl err
      | Inr v \<Rightarrow> Inr (case v of JArr xs \<Rightarrow> False | _ \<Rightarrow> True))"

fun execScript :: "(string \<Rightarrow> js_value option) \<Rightarrow> nat \<Rightarrow> jstmt list \<Rightarrow> error + js_value" where
  "execScript \<rho> h [] = Inr JUndefined"
| "execScript \<rho> h (ConstNow # ss) = execScript \<rho> h ss"
| "execScript \<rho> h (IfReturn c e # ss) =
     (case evalCond \<rho> h c of
        Inl err \<Rightarrow> Inl err
      | Inr x \<Rightarrow> if x then evalExpr \<rho> e else execScript \<rho> h ss)"
| "execScript \<rho> h (Return e # ss) = evalExpr \<rho> e"

text \<open>The script of the \<^verbatim>\<open>Append value(s)\<close> branch, for the two interpolated texts.\<close>

definition appendValuesScript :: "string \<Rightarrow> string \<Rightarrow> jstmt list" where
  "appendValuesScript itemText variableText =
     [IfReturn (Not (Raw itemText)) (Raw variableText),
      IfReturn (Not (Raw variableText)) (ArrayLit [Raw itemText]),
      IfReturn (NotIsArray (Raw variableText)) (ArrayLit [Raw variableText, Raw itemText]),
      Return (ConcatCall (Paren (Raw variableText)) (Raw itemText))]"

text \<open>The script of the \<^verbatim>\<open>Moment of the day\<close> branch.\<close>

definition momentOfTheDayScript :: "jstmt list" where
  "momentOfTheDayScript =
     [ConstNow,
      IfReturn (HoursLt 12) (StrLit ''morning''),
      IfReturn (AndAlso (HoursGe 12) (HoursLt 18)) (StrLit ''afternoon''),
      IfReturn (HoursGe 18) (StrLit ''evening''),
      IfReturn (OrElse (HoursGe 22) (HoursLt 6)) (StrLit ''night'')]"

subsection \<open>The expression synthesizer\<close>

definition mapItemScript :: "map_list_item_params option \<Rightarrow> string" where
  "mapItemScript ps =
     ''const itemIndex = '' @ interpolate (Option.bind ps baseListVariableId)
       @ ''.indexOf('' @ interpolate (Option.bind ps baseItemVariableId) @ '')''
       @ [CHR 0x0A] @ ''      return '' @ interpolate (Option.bind ps targetListVariableId)
       @ ''.at(itemIndex)''"

text \<open>
  The time-zone reference of the descriptor, substituted against the pool of the
  first typebot of the queue.
\<close>

definition parsedTimeZone ::
  "collaborators \<Rightarrow> session_state \<Rightarrow> set_variable_options \<Rightarrow> error + string" where
  "parsedTimeZone env state opts =
     (case firstInQueue state of
        Inl e \<Rightarrow> Inl e
      | Inr q \<Rightarrow> Inr (parseVariables env (variables (typebot q)) None (timeZone opts)))"

text \<open>
  The branches \<^verbatim>\<open>Now\<close>, \<^verbatim>\<open>Tomorrow\<close> and \<^verbatim>\<open>Yesterday\<close>: the script text when the zone
  is empty, the formatted instant otherwise.
\<close>

definition zonedOr ::
  "collaborators \<Rightarrow> session_state \<Rightarrow> set_variable_options \<Rightarrow> string \<Rightarrow> int
     \<Rightarrow> error + string option" where
  "zonedOr env state opts utcScript instant =
     (case parsedTimeZone env state opts of
        Inl e \<Rightarrow> Inl e
      | Inr tz \<Rightarrow>
          if isEmpty tz then Inr (Some utcScript)
          else (case toISOWithTz env (Date instant) tz of
                  Inl e \<Rightarrow> Inl e
                | Inr s \<Rightarrow> Inr (Some s)))"

definition getExpressionToEvaluate ::
  "collaborators \<Rightarrow> host \<Rightarrow> session_state \<Rightarrow> set_variable_options option
     \<Rightarrow> error + string option" where
  "getExpressionToEvaluate env h state options' =
     (case options' of
        None \<Rightarrow> Inr None
      | Some opts \<Rightarrow>
          (case type opts of
             Some ContactName \<Rightarrow>
               (case whatsApp state of
                  None \<Rightarrow> Inr None
                | Some w \<Rightarrow> Inr (name (contact w)))
           | Some PhoneNumber \<Rightarrow>
               (case Option.bind (whatsApp state) (\<lambda>w. phoneNumber (contact w)) of
                  None \<Rightarrow> Inr None
                | Some p \<Rightarrow> if p = [] then Inr None else Inr (Some (doubleQuoted p)))
           | Some Now \<Rightarrow>
               zonedOr env state opts ''new Date().toISOString()'' (dateNow h)
           | Some Today \<Rightarrow> Inr (Some ''new Date().toISOString()'')
           | Some Tomorrow \<Rightarrow>
               zonedOr env state opts
                 ''new Date(Date.now() + 86400000).toISOString()'' (dateNow h + 86400000)
           | Some Yesterday \<Rightarrow>
               zonedOr env state opts
                 ''new Date(Date.now() - 86400000).toISOString()'' (dateNow h - 86400000)
           | Some RandomId \<Rightarrow> Inr (Some (doubleQuoted (createId h)))
           | Some ResultId \<Rightarrow>
               (case firstInQueue state of
                  Inl e \<Rightarrow> Inl e
                | Inr q \<Rightarrow>
                    (case resultId q of
                       Some r \<Rightarrow> Inr (Some r)
                     | None \<Rightarrow> Inr (Some (doubleQuoted (createId h)))))
           | Some UserId \<Rightarrow>
               (case firstInQueue state of
                  Inl e \<Rightarrow> Inl e
                | Inr q \<Rightarrow>
                    (case resultId q of
                       Some r \<Rightarrow> Inr (Some r)
                     | None \<Rightarrow> Inr (Some (doubleQuoted (createId h)))))
           | Some MapItemWithSameIndex \<Rightarrow>
               Inr (Some (mapItemScript (mapListItemParams opts)))
           | Some AppendValues \<Rightarrow>
               Inr (Some (renderScript '';''
                      (appendValuesScript (interpolate (item opts))
                         (interpolate (variableId opts)))))
           | Some Empty \<Rightarrow> Inr None
           | Some MomentOfTheDay \<Rightarrow> Inr (Some (renderScript [] momentOfTheDayScript))
           | Some EnvironmentName \<Rightarrow>
               Inr (Some (if whatsApp state \<noteq> None then ''whatsapp'' else ''web''))
           | Some Custom \<Rightarrow> Inr (expressionToEvaluate opts)
           | None \<Rightarrow> Inr (expressionToEvaluate opts)))"

subsection \<open>The block\<close>

text \<open>A JavaScript string in a condition: true unless it is null or empty.\<close>

definition isTruthyString :: "string option \<Rightarrow> bool" where
  "isTruthyString x = (case x of None \<Rightarrow> False | Some s \<Rightarrow> s \<noteq> [])"

definition edgeOnly :: "set_variable_block \<Rightarrow> execute_logic_response" where
  "edgeOnly block =
     \<lparr>outgoingEdgeId = block_outgoingEdgeId block,
      clientSideActions = None,
      newSessionState = None\<rparr>"

text \<open>The condition of the client path (lines 23 to 28 of the source).\<close>

definition isRoutedToClient ::
  "session_state \<Rightarrow> set_variable_options \<Rightarrow> string option \<Rightarrow> bool" where
  "isRoutedToClient state opts expressionToEvaluate' =
     (let isCustomValue = (type opts = None \<or> type opts = Some Custom)
      in isTruthyString expressionToEvaluate' \<and>
         whatsApp state = None \<and>
         ((isCustomValue \<and> isExecutedOnClient opts = Some True)
          \<or> type opts = Some MomentOfTheDay))"

definition clientResponse ::
  "collaborators \<Rightarrow> variable list \<Rightarrow> set_variable_block \<Rightarrow> string
     \<Rightarrow> execute_logic_response" where
  "clientResponse env vars block expr =
     \<lparr>outgoingEdgeId = block_outgoingEdgeId block,
      clientSideActions =
        Some [\<lparr>action_type = ''setVariable'',
               setVariable =
                 \<lparr>scriptToExecute = parseScriptToExecuteClientSideAction env vars expr\<rparr>,
               expectsDedicatedReply = True\<rparr>],
      newSessionState = None\<rparr>"

text \<open>
  The end of the server path (lines 49 to 59 of the source): the target is looked up
  in the pool and, when it is there, committed with the evaluated value.
\<close>

definition commitEvaluated ::
  "collaborators \<Rightarrow> session_state \<Rightarrow> set_variable_block \<Rightarrow> variable list \<Rightarrow> string
     \<Rightarrow> js_value \<Rightarrow> execute_logic_response" where
  "commitEvaluated env state block vars targetId evaluatedExpression =
     (case find (byId targetId) vars of
        None \<Rightarrow> edgeOnly block
      | Some existingVariable \<Rightarrow>
          (let newVariable = existingVariable\<lparr>var_value := evaluatedExpression\<rparr>;
               newSessionState' = updateVariablesInSession env state [newVariable]
           in \<lparr>outgoingEdgeId = block_outgoingEdgeId block,
               clientSideActions = None,
               newSessionState = Some newSessionState'\<rparr>))"

definition executeSetVariable ::
  "collaborators \<Rightarrow> host \<Rightarrow> session_state \<Rightarrow> set_variable_block
     \<Rightarrow> error + execute_logic_response" where
  "executeSetVariable env h state block =
     (case firstInQueue state of
        Inl e \<Rightarrow> Inl e
      | Inr q \<Rightarrow>
          (let vars = variables (typebot q) in
           case Option.bind (options block) variableId of
             None \<Rightarrow> Inr (edgeOnly block)
           | Some targetId \<Rightarrow>
               if targetId = [] then Inr (edgeOnly block)
               else
                 (case getExpressionToEvaluate env h state (options block) of
                    Inl e \<Rightarrow> Inl e
                  | Inr None \<Rightarrow>
                      Inr (commitEvaluated env state block vars targetId JUndefined)
                  | Inr (Some expr) \<Rightarrow>
                      if (case options block of
                            None \<Rightarrow> False
                          | Some opts \<Rightarrow> isRoutedToClient state opts (Some expr))
                      then Inr (clientResponse env vars block expr)
                      else
                        (case (if expr \<noteq> []
                               then evaluateSetVariableExpression env vars expr
                               else Inr JUndefined) of
                           Inl e \<Rightarrow> Inl e
                         | Inr evaluatedExpression \<Rightarrow>
                             Inr (commitEvaluated env state block vars targetId
                                    evaluatedExpression)))))"

subsection \<open>A concrete instance\<close>

text \<open>
  Modelled from the spec: \<^verbatim>\<open>updateVariablesInSession\<close> of \<^verbatim>\<open>@typebot.io/variables\<close>
  (``produces a new pool where that one variable's value is replaced; all other
  variables and their relative order are preserved unchanged''), on the pool of the
  first typebot of the queue.
\<close>

definition replaceById :: "variable list \<Rightarrow> variable \<Rightarrow> variable" where
  "replaceById newVariables v =
     (case find (byId (var_id v)) newVariables of None \<Rightarrow> v | Some n \<Rightarrow> n)"

definition updateVariablesInSessionSpec :: "session_state \<Rightarrow> variable list \<Rightarrow> session_state" where
  "updateVariablesInSessionSpec state newVariables =
     state\<lparr>typebotsQueue :=
       (case typebotsQueue state of
          [] \<Rightarrow> []
        | q # qs \<Rightarrow>
            q\<lparr>typebot :=
                \<lparr>variables = map (replaceById newVariables) (variables (typebot q))\<rparr>\<rparr> # qs)\<rparr>"

text \<open>
  Collaborators at which the model is evaluated on concrete inputs: a text without
  placeholders is substituted to itself, values are taken as they are, the client
  script is the expression, the sandbox rejects every script with a syntax error, and
  only the zone \<^verbatim>\<open>Europe/Paris\<close> is known (one hour ahead of UTC).
\<close>

definition plainText :: "variable list \<Rightarrow> field_to_parse option \<Rightarrow> string option \<Rightarrow> string" where
  "plainText vars fieldToParse text = (case text of None \<Rightarrow> [] | Some s \<Rightarrow> s)"

definition parisTime :: "js_date \<Rightarrow> string \<Rightarrow> js_date" where
  "parisTime date tz =
     (case date of
        Date t \<Rightarrow> if tz = ''Europe/Paris'' then Date (t + 3600000) else InvalidDate
      | InvalidDate \<Rightarrow> InvalidDate)"

definition parisFormat :: "js_date \<Rightarrow> string \<Rightarrow> string \<Rightarrow> error + string" where
  "parisFormat date fmt tz =
     (case date of
        Date t \<Rightarrow> Inr ''2024-01-01T13:00:00+01:00''
      | InvalidDate \<Rightarrow> Inl (RangeError ''Invalid time value''))"

definition sampleCollaborators :: collaborators where
  "sampleCollaborators =
     \<lparr>parseVariables = plainText,
      parseGuessedValueType = (\<lambda>v. v),
      parseScriptToExecuteClientSideAction = (\<lambda>vars expr. JStr expr),
      updateVariablesInSession = updateVariablesInSessionSpec,
      runInContext = (\<lambda>script entries. Inl (SyntaxError ''Unexpected token'')),
      utcToZonedTime = parisTime,
      tzFormat = parisFormat\<rparr>"

definition sampleHost :: host where
  "sampleHost = \<lparr>createId = ''tz4a98xxat96iws9zmbrgj3a'', dateNow = 1704110400000\<rparr>"

definition samplePool :: "variable list" where
  "samplePool =
     [\<lparr>var_id = ''v1'', var_name = ''Name'', var_value = JStr ''old''\<rparr>,
      \<lparr>var_id = ''v2'', var_name = ''Zone'', var_value = JStr ''Europe/Paris''\<rparr>]"

definition webSession :: session_state where
  "webSession =
     \<lparr>typebotsQueue = [\<lparr>typebot = \<lparr>variables = samplePool\<rparr>, resultId = None\<rparr>],
      whatsApp = None\<rparr>"

definition whatsAppSession :: session_state where
  "whatsAppSession =
     webSession\<lparr>whatsApp :=
       Some \<lparr>contact = \<lparr>name = Some ''Ada'', phoneNumber = Some ''33612345678''\<rparr>\<rparr>\<rparr>"

text \<open>A descriptor of the given type for the target variable, every other field absent.\<close>

definition descriptor :: "value_type option \<Rightarrow> string \<Rightarrow> set_variable_options" where
  "descriptor ty target =
     \<lparr>variableId = Some target,
      type = ty,
      expressionToEvaluate = None,
      isExecutedOnClient = None,
      timeZone = None,
      item = None,
      mapListItemParams = None\<rparr>"

definition blockOf :: "set_variable_options \<Rightarrow> set_variable_block" where
  "blockOf opts = \<lparr>block_outgoingEdgeId = Some ''e1'', options = Some opts\<rparr>"

text \<open>A descriptor that names the zone \<^verbatim>\<open>Europe/Paris\<close>.\<close>

definition zoned :: "value_type \<Rightarrow> set_variable_options" where
  "zoned ty = (descriptor (Some ty) ''v1'')\<lparr>timeZone := Some ''Europe/Paris''\<rparr>"

text \<open>A custom descriptor flagged for the client whose expression is the empty text.\<close>

definition emptyCustomOnClient :: set_variable_options where
  "emptyCustomOnClient =
     (descriptor (Some Custom) ''v1'')
       \<lparr>expressionToEvaluate := Some [], isExecutedOnClient := Some True\<rparr>"

text \<open>A custom descriptor for a variable that is not in the pool.\<close>

definition customForMissing :: set_variable_options where
  "customForMissing = (descriptor (Some Custom) ''v9'')\<lparr>expressionToEvaluate := Some ''1 +''\<rparr>"

text \<open>What the host returns to a second invocation, one minute later.\<close>

definition otherHost :: host where
  "otherHost = \<lparr>createId = ''pfh0haxfpzowht3oi213cqos'', dateNow = 1704110460000\<rparr>"






text \<open>
  A sandbox that runs the \<^verbatim>\<open>Moment of the day\<close> script as JavaScript at the given clock
  hour, and the collaborators that execute scripts in it.
\<close>

definition momentSandbox :: "nat \<Rightarrow> string \<Rightarrow> (string \<times> js_value) list \<Rightarrow> error + js_value" where
  "momentSandbox hour script entries =
     (if script = wrapInFunction (renderScript [] momentOfTheDayScript)
      then execScript (map_of entries) hour momentOfTheDayScript
      else Inl (SyntaxError ''Unexpected token''))"

definition momentCollaborators :: "nat \<Rightarrow> collaborators" where
  "momentCollaborators hour = sampleCollaborators\<lparr>runInContext := momentSandbox hour\<rparr>"







section \<open>Properties of the sandboxed evaluator\<close>

lemma evaluate_returns: "\<exists>v. evaluateSetVariableExpression env vars str = Inr v"
  by (simp add: evaluateSetVariableExpression_def Let_def split: sum.split)

lemma brace_not_space: "\<not> isStrWhiteSpaceChar CHR ''{''"
  by (simp add: isStrWhiteSpaceChar_def)

lemma trim_braces: "\<exists>u. trimString (CHR ''{'' # CHR ''{'' # t) = CHR ''{'' # CHR ''{'' # u"
proof -
  have "\<exists>w. dropWhile isStrWhiteSpaceChar (rev t @ [CHR ''{'', CHR ''{''])
          = w @ [CHR ''{'', CHR ''{'']"
    by (simp add: dropWhile_append brace_not_space)
  then obtain w where
    "dropWhile isStrWhiteSpaceChar (rev t @ [CHR ''{'', CHR ''{'']) = w @ [CHR ''{'', CHR ''{'']"
    by blast
  then show ?thesis
    by (simp add: trimString_def brace_not_space)
qed

lemma braces_not_numeric: "isNaN (CHR ''{'' # CHR ''{'' # t)"
proof -
  obtain u where u: "trimString (CHR ''{'' # CHR ''{'' # t) = CHR ''{'' # CHR ''{'' # u"
    using trim_braces by blast
  show ?thesis
    by (simp add: isNaN_def u isStrDecimalLiteral_def isStrUnsignedDecimalLiteral_def
        isNonDecimalIntegerLiteral_def isDecimalDigit_def)
qed

text \<open>A numeric text is never a single placeholder, so the fast path does not take it.\<close>

lemma numeric_not_single_variable: "\<not> isNaN str \<Longrightarrow> \<not> isSingleVariable str"
proof
  assume n: "\<not> isNaN str" and s: "isSingleVariable str"
  from s have "prefix ''{{'' str" by (simp add: isSingleVariable_def startsWith_def)
  then obtain t where "str = CHR ''{'' # CHR ''{'' # t" by (auto simp: prefix_def)
  with n braces_not_numeric show False by blast
qed

lemma testOctalPattern_inside:
  "b \<noteq> CHR ''.'' \<Longrightarrow> \<not> isLineTerminator c \<Longrightarrow>
   testOctalPattern (pre @ CHR ''0'' # b # c # post)"
  by (induction pre rule: testOctalPattern.induct) simp_all

lemma isNaN_0123: "\<not> isNaN ''0123''"
  by code_simp

lemma isNaN_1023: "\<not> isNaN ''1023''"
  by code_simp

lemma isNaN_incomplete_sum: "isNaN ''1 +''"
  by code_simp

text \<open>
  C4. When the text reaches the sandbox (it is not returned by the guard for numeric
  texts) and the execution of the wrapped script throws, whatever the error, the
  evaluator returns the plain template substitution of the original text: the result
  is a value, not an error.
\<close>

theorem sandbox_failure_falls_back:
  assumes "\<not> (\<not> isNaN str \<and> testOctalPattern str)"
    and "runInContext env (parseVariables env vars (Some FieldId) (Some (wrapInFunction str)))
           (sandboxEntries env vars) = Inl err"
  shows "evaluateSetVariableExpression env vars str =
           Inr (JStr (parseVariables env vars None (Some str)))"
  using assms by (auto simp add: evaluateSetVariableExpression_def Let_def)

theorem sandbox_failure_falls_back_witness:
  "runInContext sampleCollaborators
     (parseVariables sampleCollaborators samplePool (Some FieldId)
        (Some (wrapInFunction ''1 +'')))
     (sandboxEntries sampleCollaborators samplePool) = Inl (SyntaxError ''Unexpected token'')
   \<and> evaluateSetVariableExpression sampleCollaborators samplePool ''1 +'' = Inr (JStr ''1 +'')"
  using sandbox_failure_falls_back
    [of "''1 +''" sampleCollaborators samplePool "SyntaxError ''Unexpected token''"]
  by (simp add: isNaN_incomplete_sum sampleCollaborators_def plainText_def)

text \<open>
  C5. For every variable pool and every behaviour of the collaborators, the text
  \<^verbatim>\<open>0123\<close> evaluates to the string \<^verbatim>\<open>0123\<close>: it is numeric and matches the guard
  pattern, so it is returned as it is and no script is executed.
\<close>

theorem octal_text_unevaluated:
  "evaluateSetVariableExpression env vars ''0123'' = Inr (JStr ''0123'')"
  by (simp add: evaluateSetVariableExpression_def isSingleVariable_def startsWith_def
      isNaN_0123 isLineTerminator_def)

theorem octal_text_unevaluated_witness:
  "evaluateSetVariableExpression sampleCollaborators samplePool ''0123'' = Inr (JStr ''0123'')"
  using octal_text_unevaluated [of sampleCollaborators samplePool] by simp

text \<open>
  C10. The guard is not restricted to a leading zero: a numeric text that holds,
  anywhere, the character 0 followed by a character other than a dot and by one more
  character (not a line terminator) is returned as a string without being executed.
  The text \<^verbatim>\<open>1023\<close>, which has no leading zero, is one (see the witness).
\<close>

theorem guard_matches_anywhere:
  assumes "str = pre @ CHR ''0'' # b # c # post"
    and "b \<noteq> CHR ''.''"
    and "\<not> isLineTerminator c"
    and "\<not> isNaN str"
  shows "evaluateSetVariableExpression env vars str = Inr (JStr str)"
proof -
  have "testOctalPattern str"
    using assms(1-3) testOctalPattern_inside by simp
  moreover have "\<not> isSingleVariable str"
    using assms(4) by (rule numeric_not_single_variable)
  ultimately show ?thesis
    using assms(4) by (simp add: evaluateSetVariableExpression_def)
qed

theorem guard_matches_anywhere_witness:
  "\<not> startsWith ''1023'' ''0'' \<and> \<not> isNaN ''1023''
   \<and> evaluateSetVariableExpression sampleCollaborators samplePool ''1023'' = Inr (JStr ''1023'')"
  using guard_matches_anywhere
    [of "''1023''" "''1''" "CHR ''2''" "CHR ''3''" "[]" sampleCollaborators samplePool]
  by (simp add: isNaN_1023 isLineTerminator_def startsWith_def)

section \<open>Properties of the synthesized scripts\<close>

text \<open>The rendered scripts are, character by character, the template literals of the source.\<close>

lemma momentOfTheDay_text:
  "renderScript [] momentOfTheDayScript =
     ''const now = new Date()'' @ [CHR 0x0A] @
     ''        if(now.getHours() < 12) return '' @ [CHR 0x27] @ ''morning'' @ [CHR 0x27]
       @ [CHR 0x0A] @
     ''        if(now.getHours() >= 12 && now.getHours() < 18) return '' @ [CHR 0x27]
       @ ''afternoon'' @ [CHR 0x27] @ [CHR 0x0A] @
     ''        if(now.getHours() >= 18) return '' @ [CHR 0x27] @ ''evening'' @ [CHR 0x27]
       @ [CHR 0x0A] @
     ''        if(now.getHours() >= 22 || now.getHours() < 6) return '' @ [CHR 0x27]
       @ ''night'' @ [CHR 0x27]"
  by code_simp


lemma momentOfTheDay_branches:
  "execScript \<rho> h momentOfTheDayScript =
     Inr (if h < 12 then JStr ''morning''
          else if 12 \<le> h \<and> h < 18 then JStr ''afternoon''
          else if 18 \<le> h then JStr ''evening''
          else if 22 \<le> h \<or> h < 6 then JStr ''night''
          else JUndefined)"
  by (simp add: momentOfTheDayScript_def)

lemma momentOfTheDay_nonempty: "renderScript [] momentOfTheDayScript \<noteq> []"
  by (simp add: renderScript_def momentOfTheDayScript_def)

lemma isNaN_momentOfTheDay: "isNaN (renderScript [] momentOfTheDayScript)"
  by code_simp

lemma single_momentOfTheDay: "\<not> isSingleVariable (renderScript [] momentOfTheDayScript)"
  by code_simp








section \<open>Properties of the synthesizer and of the block\<close>

lemmas sample_defs =
  sampleCollaborators_def plainText_def parisTime_def parisFormat_def sampleHost_def
  samplePool_def webSession_def descriptor_def blockOf_def
  updateVariablesInSessionSpec_def replaceById_def

lemmas block_defs =
  executeSetVariable_def getExpressionToEvaluate_def firstInQueue_def commitEvaluated_def
  edgeOnly_def isRoutedToClient_def isTruthyString_def clientResponse_def byId_def
  zonedOr_def parsedTimeZone_def isEmpty_def toISOWithTz_def doubleQuoted_def

lemma commitEvaluated_edge [simp]:
  "outgoingEdgeId (commitEvaluated env state block vars targetId v) = block_outgoingEdgeId block"
  by (simp add: commitEvaluated_def edgeOnly_def Let_def split: option.split)

lemma commitEvaluated_no_actions [simp]:
  "clientSideActions (commitEvaluated env state block vars targetId v) = None"
  by (simp add: commitEvaluated_def edgeOnly_def Let_def split: option.split)

text \<open>
  C1 (as amended). In a session with a current typebot:
  a block without options, or whose descriptor has no target variable id or an empty
  one, gets the outgoing edge alone. For a block whose descriptor names a non-empty
  target variable: when the synthesizer throws, the block throws the same error; when
  the expression is synthesized to \<open>expr\<close>, the block answers with the client-side
  \<^verbatim>\<open>setVariable\<close> action (and no new session state) if and only if \<open>expr\<close> is neither
  null nor the empty text, the session is not a WhatsApp session, and the descriptor
  is either custom or untyped with \<^verbatim>\<open>isExecutedOnClient\<close> set, or
  \<^verbatim>\<open>Moment of the day\<close>. In every other such case the server path runs: the response
  has no client-side action and is the commit of the value the evaluator returns for
  \<open>expr\<close> (undefined for a null or empty \<open>expr\<close>).
\<close>

theorem client_route_iff:
  assumes "typebotsQueue state = q # qs"
  shows
    "(options block = None
        \<or> (\<exists>d. options block = Some d \<and> (variableId d = None \<or> variableId d = Some []))
      \<longrightarrow> executeSetVariable env h state block = Inr (edgeOnly block))
     \<and> (options block = Some opts \<and> variableId opts = Some targetId \<and> targetId \<noteq> [] \<longrightarrow>
          (getExpressionToEvaluate env h state (Some opts) = Inl err
             \<longrightarrow> executeSetVariable env h state block = Inl err)
          \<and> (getExpressionToEvaluate env h state (Some opts) = Inr expr \<longrightarrow>
               (let vars = variables (typebot q);
                    routed =
                      ((\<exists>e. expr = Some e \<and> e \<noteq> []) \<and> whatsApp state = None \<and>
                       (((type opts = None \<or> type opts = Some Custom)
                           \<and> isExecutedOnClient opts = Some True)
                        \<or> type opts = Some MomentOfTheDay))
                in \<exists>r. executeSetVariable env h state block = Inr r
                     \<and> outgoingEdgeId r = block_outgoingEdgeId block
                     \<and> (clientSideActions r \<noteq> None \<longleftrightarrow> routed)
                     \<and> (routed \<longrightarrow>
                           (\<exists>e. expr = Some e \<and> r = clientResponse env vars block e)
                           \<and> newSessionState r = None)
                     \<and> (\<not> routed \<longrightarrow>
                           (\<exists>v. (case expr of
                                   None \<Rightarrow> Inr JUndefined
                                 | Some e \<Rightarrow>
                                     if e = [] then Inr JUndefined
                                     else evaluateSetVariableExpression env vars e) = Inr v
                                \<and> r = commitEvaluated env state block vars targetId v)))))"
proof (intro conjI impI)
  assume "options block = None
        \<or> (\<exists>d. options block = Some d \<and> (variableId d = None \<or> variableId d = Some []))"
  with assms show "executeSetVariable env h state block = Inr (edgeOnly block)"
    by (auto simp add: executeSetVariable_def firstInQueue_def Let_def)
next
  assume "options block = Some opts \<and> variableId opts = Some targetId \<and> targetId \<noteq> []"
    and "getExpressionToEvaluate env h state (Some opts) = Inl err"
  with assms show "executeSetVariable env h state block = Inl err"
    by (simp add: executeSetVariable_def firstInQueue_def Let_def)
next
  assume t: "options block = Some opts \<and> variableId opts = Some targetId \<and> targetId \<noteq> []"
    and g: "getExpressionToEvaluate env h state (Some opts) = Inr expr"
  show "let vars = variables (typebot q);
            routed =
              ((\<exists>e. expr = Some e \<and> e \<noteq> []) \<and> whatsApp state = None \<and>
               (((type opts = None \<or> type opts = Some Custom)
                   \<and> isExecutedOnClient opts = Some True)
                \<or> type opts = Some MomentOfTheDay))
        in \<exists>r. executeSetVariable env h state block = Inr r
             \<and> outgoingEdgeId r = block_outgoingEdgeId block
             \<and> (clientSideActions r \<noteq> None \<longleftrightarrow> routed)
             \<and> (routed \<longrightarrow>
                   (\<exists>e. expr = Some e \<and> r = clientResponse env vars block e)
                   \<and> newSessionState r = None)
             \<and> (\<not> routed \<longrightarrow>
                   (\<exists>v. (case expr of
                           None \<Rightarrow> Inr JUndefined
                         | Some e \<Rightarrow>
                             if e = [] then Inr JUndefined
                             else evaluateSetVariableExpression env vars e) = Inr v
                        \<and> r = commitEvaluated env state block vars targetId v))"
  proof (cases expr)
    case None
    with assms t g show ?thesis
      by (auto simp add: executeSetVariable_def firstInQueue_def Let_def)
  next
    case (Some e)
    obtain v where v: "evaluateSetVariableExpression env (variables (typebot q)) e = Inr v"
      using evaluate_returns by blast
    from Some assms t g v show ?thesis
      by (auto simp add: executeSetVariable_def firstInQueue_def Let_def
          isRoutedToClient_def isTruthyString_def clientResponse_def)
  qed
qed

theorem client_route_iff_witness:
  "executeSetVariable sampleCollaborators sampleHost webSession
      (blockOf (descriptor (Some MomentOfTheDay) ''v1''))
    = Inr (clientResponse sampleCollaborators samplePool
            (blockOf (descriptor (Some MomentOfTheDay) ''v1''))
            (renderScript [] momentOfTheDayScript))
   \<and> executeSetVariable sampleCollaborators sampleHost whatsAppSession
        (blockOf (descriptor (Some MomentOfTheDay) ''v1''))
     = Inr (commitEvaluated sampleCollaborators whatsAppSession
             (blockOf (descriptor (Some MomentOfTheDay) ''v1'')) samplePool ''v1''
             (JStr (renderScript [] momentOfTheDayScript)))
   \<and> executeSetVariable sampleCollaborators sampleHost webSession
        (blockOf (descriptor (Some MomentOfTheDay) []))
     = Inr (edgeOnly (blockOf (descriptor (Some MomentOfTheDay) [])))"
proof -
  let ?q = "\<lparr>typebot = \<lparr>variables = samplePool\<rparr>, resultId = None\<rparr>"
  let ?d = "descriptor (Some MomentOfTheDay) ''v1''"
  let ?n = "descriptor (Some MomentOfTheDay) []"
  let ?text = "renderScript [] momentOfTheDayScript"
  have web: "typebotsQueue webSession = [?q]" "whatsApp webSession = None"
    by (simp_all add: webSession_def)
  have wa: "typebotsQueue whatsAppSession = [?q]" "whatsApp whatsAppSession \<noteq> None"
    by (simp_all add: whatsAppSession_def webSession_def)
  have d: "options (blockOf ?d) = Some ?d \<and> variableId ?d = Some ''v1'' \<and> ''v1'' \<noteq> []"
    by (simp add: blockOf_def descriptor_def)
  have ty: "type ?d = Some MomentOfTheDay"
    by (simp add: descriptor_def)
  have n: "options (blockOf ?n) = None
             \<or> (\<exists>d. options (blockOf ?n) = Some d \<and> (variableId d = None \<or> variableId d = Some []))"
    by (simp add: blockOf_def descriptor_def)
  have vars: "variables (typebot ?q) = samplePool"
    by simp
  have g: "getExpressionToEvaluate sampleCollaborators sampleHost s (Some ?d) = Inr (Some ?text)"
    for s
    by (simp add: getExpressionToEvaluate_def descriptor_def)
  have e: "evaluateSetVariableExpression sampleCollaborators samplePool ?text = Inr (JStr ?text)"
    by (simp add: evaluateSetVariableExpression_def isNaN_momentOfTheDay single_momentOfTheDay
        sampleCollaborators_def plainText_def)
  have "executeSetVariable sampleCollaborators sampleHost webSession (blockOf ?d)
          = Inr (clientResponse sampleCollaborators samplePool (blockOf ?d) ?text)"
    using client_route_iff [OF web(1), THEN conjunct2, rule_format, OF d, THEN conjunct2,
        rule_format, OF g]
    by (auto simp add: Let_def web(2) ty vars momentOfTheDay_nonempty)
  moreover have "executeSetVariable sampleCollaborators sampleHost whatsAppSession (blockOf ?d)
          = Inr (commitEvaluated sampleCollaborators whatsAppSession (blockOf ?d) samplePool ''v1''
                  (JStr ?text))"
    using client_route_iff [OF wa(1), THEN conjunct2, rule_format, OF d, THEN conjunct2,
        rule_format, OF g]
    by (auto simp add: Let_def wa(2) ty vars momentOfTheDay_nonempty e)
  moreover have "executeSetVariable sampleCollaborators sampleHost webSession (blockOf ?n)
          = Inr (edgeOnly (blockOf ?n))"
    using client_route_iff [OF web(1), THEN conjunct1, rule_format, OF n] .
  ultimately show ?thesis
    by simp
qed

text \<open>
  Without the amendment the statement fails: a custom descriptor flagged for the client whose expression is
  the empty text has a non-null expression on a session that is not a WhatsApp
  session, and the block does not answer with a client-side action; and a
  \<^verbatim>\<open>Moment of the day\<close> descriptor whose target variable id is empty gets the outgoing
  edge alone.
\<close>

theorem client_route_counterexample:
  "getExpressionToEvaluate sampleCollaborators sampleHost webSession (Some emptyCustomOnClient)
     = Inr (Some [])
   \<and> whatsApp webSession = None
   \<and> type emptyCustomOnClient = Some Custom
   \<and> isExecutedOnClient emptyCustomOnClient = Some True
   \<and> map_sum id clientSideActions
        (executeSetVariable sampleCollaborators sampleHost webSession (blockOf emptyCustomOnClient))
     = Inr None
   \<and> getExpressionToEvaluate sampleCollaborators sampleHost webSession
        (Some (descriptor (Some MomentOfTheDay) []))
     = Inr (Some (renderScript [] momentOfTheDayScript))
   \<and> executeSetVariable sampleCollaborators sampleHost webSession
        (blockOf (descriptor (Some MomentOfTheDay) []))
     = Inr \<lparr>outgoingEdgeId = Some ''e1'', clientSideActions = None, newSessionState = None\<rparr>"
  by (simp add: sample_defs block_defs emptyCustomOnClient_def)

text \<open>
  C2 (as amended). In a session with a current typebot whose pool holds the target
  variable, when the synthesized expression is null the block does assign: the
  response carries a new session state, the one the commit produces for the target
  variable with its value reset to undefined.
\<close>

theorem null_expression_clears:
  assumes "typebotsQueue state = q # qs"
    and "options block = Some opts"
    and "variableId opts = Some targetId"
    and "targetId \<noteq> []"
    and "getExpressionToEvaluate env h state (Some opts) = Inr None"
    and "find (byId targetId) (variables (typebot q)) = Some existingVariable"
  shows "executeSetVariable env h state block =
           Inr \<lparr>outgoingEdgeId = block_outgoingEdgeId block,
                clientSideActions = None,
                newSessionState =
                  Some (updateVariablesInSession env state
                          [existingVariable\<lparr>var_value := JUndefined\<rparr>])\<rparr>"
  using assms
  by (simp add: executeSetVariable_def firstInQueue_def Let_def commitEvaluated_def)

theorem null_expression_clears_witness:
  "getExpressionToEvaluate sampleCollaborators sampleHost webSession
     (Some (descriptor (Some Empty) ''v1'')) = Inr None
   \<and> executeSetVariable sampleCollaborators sampleHost webSession
        (blockOf (descriptor (Some Empty) ''v1''))
     = Inr \<lparr>outgoingEdgeId = Some ''e1'',
            clientSideActions = None,
            newSessionState =
              Some (updateVariablesInSessionSpec webSession
                      [\<lparr>var_id = ''v1'', var_name = ''Name'', var_value = JUndefined\<rparr>])\<rparr>"
  using null_expression_clears
    [of webSession "\<lparr>typebot = \<lparr>variables = samplePool\<rparr>, resultId = None\<rparr>" "[]"
      "blockOf (descriptor (Some Empty) ''v1'')" "descriptor (Some Empty) ''v1''" "''v1''"
      sampleCollaborators sampleHost
      "\<lparr>var_id = ''v1'', var_name = ''Name'', var_value = JStr ''old''\<rparr>"]
  by (simp add: webSession_def blockOf_def descriptor_def getExpressionToEvaluate_def
      samplePool_def byId_def sampleCollaborators_def)

text \<open>
  Without the amendment the statement fails: for an \<^verbatim>\<open>Empty\<close> descriptor on a variable of the pool whose
  value is \<^verbatim>\<open>old\<close>, the response carries a new session state, in which the value of
  the variable is undefined.
\<close>

theorem null_expression_counterexample:
  "getExpressionToEvaluate sampleCollaborators sampleHost webSession
     (Some (descriptor (Some Empty) ''v1'')) = Inr None
   \<and> find (byId ''v1'') samplePool
       = Some \<lparr>var_id = ''v1'', var_name = ''Name'', var_value = JStr ''old''\<rparr>
   \<and> map_sum id newSessionState
        (executeSetVariable sampleCollaborators sampleHost webSession
           (blockOf (descriptor (Some Empty) ''v1'')))
     = Inr (Some
         \<lparr>typebotsQueue =
            [\<lparr>typebot =
                \<lparr>variables =
                   [\<lparr>var_id = ''v1'', var_name = ''Name'', var_value = JUndefined\<rparr>,
                    \<lparr>var_id = ''v2'', var_name = ''Zone'', var_value = JStr ''Europe/Paris''\<rparr>]\<rparr>,
              resultId = None\<rparr>],
          whatsApp = None\<rparr>)"
  by (simp add: sample_defs block_defs)

text \<open>
  C3 (as amended). For every \<^verbatim>\<open>Today\<close> descriptor, whatever its time-zone reference
  substitutes to, the synthesizer produces the UTC expression
  \<^verbatim>\<open>new Date().toISOString()\<close>; it never produces a zoned instant for \<^verbatim>\<open>Today\<close>.
\<close>

theorem today_is_utc:
  assumes "type opts = Some Today"
  shows "getExpressionToEvaluate env h state (Some opts) = Inr (Some ''new Date().toISOString()'')"
  using assms by (simp add: getExpressionToEvaluate_def)

theorem today_is_utc_witness:
  "\<not> isEmpty (parseVariables sampleCollaborators samplePool None (timeZone (zoned Today)))
   \<and> getExpressionToEvaluate sampleCollaborators sampleHost webSession (Some (zoned Today))
       = Inr (Some ''new Date().toISOString()'')"
  using today_is_utc [of "zoned Today" sampleCollaborators sampleHost webSession]
  by (simp add: zoned_def descriptor_def sampleCollaborators_def plainText_def isEmpty_def)

text \<open>
  Without the amendment the statement fails: with the time zone \<^verbatim>\<open>Europe/Paris\<close>, which substitutes to a
  non-empty zone that the formatter knows, \<^verbatim>\<open>Now\<close> gives the zoned instant with its
  offset and \<^verbatim>\<open>Today\<close> gives the UTC expression.
\<close>

theorem today_zoned_counterexample:
  "parseVariables sampleCollaborators samplePool None (timeZone (zoned Today)) = ''Europe/Paris''
   \<and> toISOWithTz sampleCollaborators (Date (dateNow sampleHost)) ''Europe/Paris''
       = Inr ''2024-01-01T13:00:00+01:00''
   \<and> getExpressionToEvaluate sampleCollaborators sampleHost webSession (Some (zoned Now))
       = Inr (Some ''2024-01-01T13:00:00+01:00'')
   \<and> getExpressionToEvaluate sampleCollaborators sampleHost webSession (Some (zoned Today))
       = Inr (Some ''new Date().toISOString()'')"
  by (simp add: sample_defs block_defs zoned_def)

text \<open>
  C6 (as amended). In a session with a current typebot, for a block whose non-empty
  target variable id is not in the pool and whose expression is synthesized to
  \<open>expr\<close>, the block returns a response (never an error) that takes the outgoing edge
  and carries no new session state. The response is the outgoing edge alone on the
  server path; when the block is routed to the client it also carries the client-side
  action.
\<close>

theorem missing_target_keeps_state:
  assumes "typebotsQueue state = q # qs"
    and "options block = Some opts"
    and "variableId opts = Some targetId"
    and "targetId \<noteq> []"
    and "find (byId targetId) (variables (typebot q)) = None"
    and "getExpressionToEvaluate env h state (Some opts) = Inr expr"
  shows "\<exists>r. executeSetVariable env h state block = Inr r
           \<and> outgoingEdgeId r = block_outgoingEdgeId block
           \<and> newSessionState r = None
           \<and> (if isRoutedToClient state opts expr
               then \<exists>e. expr = Some e \<and> r = clientResponse env (variables (typebot q)) block e
               else r = edgeOnly block)"
proof (cases expr)
  case None
  with assms show ?thesis
    by (simp add: executeSetVariable_def firstInQueue_def Let_def commitEvaluated_def
        edgeOnly_def isRoutedToClient_def isTruthyString_def)
next
  case (Some e)
  obtain v where v: "evaluateSetVariableExpression env (variables (typebot q)) e = Inr v"
    using evaluate_returns by blast
  from Some assms v show ?thesis
    by (auto simp add: executeSetVariable_def firstInQueue_def Let_def commitEvaluated_def
        edgeOnly_def clientResponse_def)
qed

theorem missing_target_keeps_state_witness:
  "find (byId ''v9'') samplePool = None
   \<and> \<not> isRoutedToClient webSession customForMissing (Some ''1 +'')
   \<and> executeSetVariable sampleCollaborators sampleHost webSession (blockOf customForMissing)
     = Inr \<lparr>outgoingEdgeId = Some ''e1'', clientSideActions = None, newSessionState = None\<rparr>"
  using missing_target_keeps_state
    [of webSession "\<lparr>typebot = \<lparr>variables = samplePool\<rparr>, resultId = None\<rparr>" "[]"
      "blockOf customForMissing" customForMissing "''v9''"
      sampleCollaborators sampleHost "Some ''1 +''"]
  by (auto simp add: webSession_def blockOf_def descriptor_def getExpressionToEvaluate_def
      samplePool_def byId_def isRoutedToClient_def edgeOnly_def customForMissing_def)

text \<open>
  Without the amendment the statement fails: for a \<^verbatim>\<open>Moment of the day\<close> descriptor on a session that is not
  a WhatsApp session, with a target variable that is not in the pool, the response is
  not the outgoing edge alone: it carries the client-side action.
\<close>

theorem missing_target_counterexample:
  "find (byId ''v9'') samplePool = None
   \<and> executeSetVariable sampleCollaborators sampleHost webSession
        (blockOf (descriptor (Some MomentOfTheDay) ''v9''))
     = Inr \<lparr>outgoingEdgeId = Some ''e1'',
            clientSideActions =
              Some [\<lparr>action_type = ''setVariable'',
                     setVariable =
                       \<lparr>scriptToExecute = JStr (renderScript [] momentOfTheDayScript)\<rparr>,
                     expectsDedicatedReply = True\<rparr>],
            newSessionState = None\<rparr>"
  by (simp add: sample_defs block_defs momentOfTheDay_nonempty Let_def)






text \<open>
  C8. For a \<^verbatim>\<open>Moment of the day\<close> descriptor the synthesizer writes the script of the
  source, whose branches are tested in the order morning (hour below 12), afternoon
  (12 to 17), evening (18 and above), night (22 and above, or below 6); the first
  branch that matches wins. At the hours 22 and 23 the script returns \<^verbatim>\<open>evening\<close>,
  and at no hour does it return \<^verbatim>\<open>night\<close>. In a session with a current typebot, a
  block with a target variable sends this script to the client when the session is not
  a WhatsApp session, and on a WhatsApp session whose sandbox runs the wrapped script
  at hour 22 or 23 it commits \<^verbatim>\<open>evening\<close> to the target.
\<close>

theorem late_hours_are_evening:
  assumes "type opts = Some MomentOfTheDay"
  shows
    "(let text =
        ''const now = new Date()'' @ [CHR 0x0A] @
        ''        if(now.getHours() < 12) return '' @ [CHR 0x27] @ ''morning'' @ [CHR 0x27]
          @ [CHR 0x0A] @
        ''        if(now.getHours() >= 12 && now.getHours() < 18) return '' @ [CHR 0x27]
          @ ''afternoon'' @ [CHR 0x27] @ [CHR 0x0A] @
        ''        if(now.getHours() >= 18) return '' @ [CHR 0x27] @ ''evening'' @ [CHR 0x27]
          @ [CHR 0x0A] @
        ''        if(now.getHours() >= 22 || now.getHours() < 6) return '' @ [CHR 0x27]
          @ ''night'' @ [CHR 0x27]
      in getExpressionToEvaluate env hst state (Some opts) = Inr (Some text)
       \<and> renderScript [] momentOfTheDayScript = text
       \<and> execScript \<rho> h momentOfTheDayScript =
           Inr (if h < 12 then JStr ''morning''
                else if 12 \<le> h \<and> h < 18 then JStr ''afternoon''
                else if 18 \<le> h then JStr ''evening''
                else if 22 \<le> h \<or> h < 6 then JStr ''night''
                else JUndefined)
       \<and> (22 \<le> h \<and> h \<le> 23 \<longrightarrow>
            execScript \<rho> h momentOfTheDayScript = Inr (JStr ''evening''))
       \<and> execScript \<rho> h momentOfTheDayScript \<noteq> Inr (JStr ''night'')
       \<and> (typebotsQueue state = q # qs \<and> options block = Some opts
            \<and> variableId opts = Some targetId \<and> targetId \<noteq> [] \<longrightarrow>
            (whatsApp state = None \<longrightarrow>
               executeSetVariable env hst state block
                 = Inr (clientResponse env (variables (typebot q)) block text))
            \<and> (whatsApp state \<noteq> None
                 \<and> runInContext env
                     (parseVariables env (variables (typebot q)) (Some FieldId)
                        (Some (wrapInFunction text)))
                     (sandboxEntries env (variables (typebot q)))
                   = execScript \<rho> h momentOfTheDayScript
                 \<and> 22 \<le> h \<and> h \<le> 23 \<longrightarrow>
               executeSetVariable env hst state block
                 = Inr (commitEvaluated env state block (variables (typebot q)) targetId
                         (JStr ''evening'')))))"
proof -
  let ?text = "renderScript [] momentOfTheDayScript"
  have g: "getExpressionToEvaluate env hst state (Some opts) = Inr (Some ?text)"
    using assms by (simp add: getExpressionToEvaluate_def)
  have client: "executeSetVariable env hst state block
                  = Inr (clientResponse env (variables (typebot q)) block ?text)"
    if "typebotsQueue state = q # qs" "options block = Some opts"
      "variableId opts = Some targetId" "targetId \<noteq> []" "whatsApp state = None"
    using that assms g
    by (simp add: executeSetVariable_def firstInQueue_def Let_def isRoutedToClient_def
        isTruthyString_def momentOfTheDay_nonempty)
  have server: "executeSetVariable env hst state block
                  = Inr (commitEvaluated env state block (variables (typebot q)) targetId
                          (JStr ''evening''))"
    if "typebotsQueue state = q # qs" "options block = Some opts"
      "variableId opts = Some targetId" "targetId \<noteq> []" "whatsApp state \<noteq> None"
      "runInContext env
         (parseVariables env (variables (typebot q)) (Some FieldId) (Some (wrapInFunction ?text)))
         (sandboxEntries env (variables (typebot q)))
       = execScript \<rho> h momentOfTheDayScript"
      "22 \<le> h" "h \<le> 23"
  proof -
    have "evaluateSetVariableExpression env (variables (typebot q)) ?text = Inr (JStr ''evening'')"
      using that(6-8)
      by (simp add: evaluateSetVariableExpression_def isNaN_momentOfTheDay single_momentOfTheDay
          momentOfTheDay_branches)
    with that(1-5) assms g show ?thesis
      by (auto simp add: executeSetVariable_def firstInQueue_def Let_def isRoutedToClient_def
          isTruthyString_def momentOfTheDay_nonempty)
  qed
  show ?thesis
    unfolding Let_def momentOfTheDay_text [symmetric]
    using g client server by (simp add: momentOfTheDay_branches)
qed

theorem late_hours_are_evening_witness:
  "executeSetVariable (momentCollaborators 23) sampleHost whatsAppSession
      (blockOf (descriptor (Some MomentOfTheDay) ''v1''))
     = Inr (commitEvaluated (momentCollaborators 23) whatsAppSession
             (blockOf (descriptor (Some MomentOfTheDay) ''v1'')) samplePool ''v1''
             (JStr ''evening''))
   \<and> executeSetVariable (momentCollaborators 23) sampleHost webSession
        (blockOf (descriptor (Some MomentOfTheDay) ''v1''))
     = Inr (clientResponse (momentCollaborators 23) samplePool
             (blockOf (descriptor (Some MomentOfTheDay) ''v1''))
             (renderScript [] momentOfTheDayScript))
   \<and> execScript (\<lambda>t. None) 22 momentOfTheDayScript = Inr (JStr ''evening'')
   \<and> execScript (\<lambda>t. None) 23 momentOfTheDayScript = Inr (JStr ''evening'')"
proof -
  let ?q = "\<lparr>typebot = \<lparr>variables = samplePool\<rparr>, resultId = None\<rparr>"
  let ?d = "descriptor (Some MomentOfTheDay) ''v1''"
  let ?env = "momentCollaborators 23"
  let ?text = "renderScript [] momentOfTheDayScript"
  have ty: "type ?d = Some MomentOfTheDay"
    by (simp add: descriptor_def)
  have web: "typebotsQueue webSession = [?q]" "whatsApp webSession = None"
    by (simp_all add: webSession_def)
  have wa: "typebotsQueue whatsAppSession = [?q]" "whatsApp whatsAppSession \<noteq> None"
    by (simp_all add: whatsAppSession_def webSession_def)
  have d: "options (blockOf ?d) = Some ?d" "variableId ?d = Some ''v1''"
    by (simp_all add: blockOf_def descriptor_def)
  have run: "runInContext ?env
               (parseVariables ?env samplePool (Some FieldId) (Some (wrapInFunction ?text)))
               (sandboxEntries ?env samplePool)
             = execScript (\<lambda>t. None) 23 momentOfTheDayScript"
    by (simp add: momentCollaborators_def sampleCollaborators_def plainText_def
        momentSandbox_def momentOfTheDay_branches)
  note t = late_hours_are_evening [OF ty, of ?env sampleHost _ "\<lambda>t. None" _ ?q "[]" "blockOf ?d"
      "''v1''", unfolded Let_def momentOfTheDay_text [symmetric]]
  have "executeSetVariable ?env sampleHost whatsAppSession (blockOf ?d)
          = Inr (commitEvaluated ?env whatsAppSession (blockOf ?d) samplePool ''v1''
                  (JStr ''evening''))"
    using t [of whatsAppSession 23] wa d run by simp
  moreover have "executeSetVariable ?env sampleHost webSession (blockOf ?d)
          = Inr (clientResponse ?env samplePool (blockOf ?d) ?text)"
    using t [of webSession 23] web d by simp
  moreover have "execScript (\<lambda>t. None) 22 momentOfTheDayScript = Inr (JStr ''evening'')"
    using t [of webSession 22] by simp
  moreover have "execScript (\<lambda>t. None) 23 momentOfTheDayScript = Inr (JStr ''evening'')"
    using t [of webSession 23] by simp
  ultimately show ?thesis
    by simp
qed

text \<open>
  C9 (as amended). The synthesized expression is a function of the descriptor, the
  session context, the identifier the host generates and the clock the host reads.
  Two invocations with the same descriptor and context, whatever the host returns to
  each, produce the same expression for every descriptor but \<^verbatim>\<open>Random ID\<close>,
  \<^verbatim>\<open>Result ID\<close> and \<^verbatim>\<open>User ID\<close> in a session without a result id, and \<^verbatim>\<open>Now\<close>,
  \<^verbatim>\<open>Tomorrow\<close> and \<^verbatim>\<open>Yesterday\<close> with a time zone that is not empty.
\<close>

theorem synthesis_host_independent:
  assumes "type opts \<noteq> Some RandomId"
    and "type opts = Some ResultId \<or> type opts = Some UserId \<longrightarrow>
           (case typebotsQueue state of [] \<Rightarrow> True | q # qs \<Rightarrow> resultId q \<noteq> None)"
    and "type opts = Some Now \<or> type opts = Some Tomorrow \<or> type opts = Some Yesterday \<longrightarrow>
           (case typebotsQueue state of
              [] \<Rightarrow> True
            | q # qs \<Rightarrow> isEmpty (parseVariables env (variables (typebot q)) None (timeZone opts)))"
  shows "getExpressionToEvaluate env h1 state (Some opts)
           = getExpressionToEvaluate env h2 state (Some opts)"
proof (cases "type opts")
  case None
  then show ?thesis by (simp add: getExpressionToEvaluate_def)
next
  case (Some ty)
  with assms show ?thesis
    by (cases ty)
      (auto simp add: getExpressionToEvaluate_def zonedOr_def parsedTimeZone_def firstInQueue_def
        split: list.splits option.splits)
qed

theorem synthesis_host_independent_witness:
  "createId sampleHost \<noteq> createId otherHost \<and> dateNow sampleHost \<noteq> dateNow otherHost
   \<and> getExpressionToEvaluate sampleCollaborators sampleHost webSession
        (Some (descriptor (Some Now) ''v1''))
     = getExpressionToEvaluate sampleCollaborators otherHost webSession
        (Some (descriptor (Some Now) ''v1''))"
  using synthesis_host_independent
    [of "descriptor (Some Now) ''v1''" webSession sampleCollaborators sampleHost otherHost]
  by (simp add: descriptor_def webSession_def sampleCollaborators_def plainText_def isEmpty_def
      sampleHost_def otherHost_def)

text \<open>
  Without the amendment the statement fails: two invocations with the same \<^verbatim>\<open>Random ID\<close> descriptor and the
  same session, to which the host generates two identifiers, produce two expressions.
\<close>

theorem synthesis_not_deterministic_counterexample:
  "getExpressionToEvaluate sampleCollaborators sampleHost webSession
     (Some (descriptor (Some RandomId) ''v1''))
   \<noteq> getExpressionToEvaluate sampleCollaborators otherHost webSession
     (Some (descriptor (Some RandomId) ''v1''))"
  by (simp add: sample_defs block_defs otherHost_def)

end
